theory Spec2Isabelle
  imports Complex_Main "HOL-Library.Sublist" "HOL-Library.Word"
begin

section \<open>Double-precision numbers\<close>

text \<open>
  The source computes with C++ \<^verbatim>\<open>double\<close>. A double is a finite number, an infinity or a
  NaN; every arithmetic operation rounds its exact result to the nearest double, ties to the
  even significand (IEEE 754 binary64, the default rounding mode). The sign of a zero is not
  modelled: a zero is the positive zero.
\<close>

datatype double = Finite real | PosInf | NegInf | NaN

text \<open>The number of times a number of at least 2 is halved until it is below 2, and the
  number of times a positive number below 1 is doubled until it is at least 1.\<close>

function halvings :: "real \<Rightarrow> nat" where
  "halvings x = (if 2 \<le> x then Suc (halvings (x / 2)) else 0)"
  by pat_completeness auto
termination
proof (relation "measure (\<lambda>x. nat \<lfloor>x\<rfloor>)")
  show "wf (measure (\<lambda>x::real. nat \<lfloor>x\<rfloor>))"
    by simp
next
  fix x :: real
  assume "2 \<le> x"
  then have "\<lfloor>x / 2\<rfloor> < \<lfloor>x\<rfloor>" and "0 < \<lfloor>x\<rfloor>"
    by linarith+
  then show "(x / 2, x) \<in> measure (\<lambda>x. nat \<lfloor>x\<rfloor>)"
    by simp
qed

declare halvings.simps [simp del]

function doublings :: "real \<Rightarrow> nat" where
  "doublings x = (if 0 < x \<and> x < 1 then Suc (doublings (2 * x)) else 0)"
  by pat_completeness auto
termination
proof (relation "measure (\<lambda>x. nat \<lceil>1 / x\<rceil>)")
  show "wf (measure (\<lambda>x::real. nat \<lceil>1 / x\<rceil>))"
    by simp
next
  fix x :: real
  assume "0 < x \<and> x < 1"
  then have big: "1 < 1 / x"
    by simp
  define y where "y = 1 / x"
  define c where "c = real_of_int \<lceil>y\<rceil>"
  have up: "y \<le> c"
    unfolding c_def by (rule le_of_int_ceiling)
  have "1 < y"
    using big by (simp only: y_def)
  with up have "1 < c"
    by arith
  then have two: "2 \<le> \<lceil>y\<rceil>"
    unfolding c_def by linarith
  then have "2 \<le> c"
    unfolding c_def by linarith
  with up have "y / 2 \<le> c - 1"
    by arith
  then have "\<lceil>y / 2\<rceil> < \<lceil>y\<rceil>"
    unfolding c_def by (simp only: ceiling_less_iff)
  moreover have "1 / (2 * x) = y / 2"
    unfolding y_def by simp
  ultimately have less: "\<lceil>1 / (2 * x)\<rceil> < \<lceil>1 / x\<rceil>"
    by (simp only: y_def)
  have pos: "0 < \<lceil>1 / x\<rceil>"
    using two by (simp only: y_def)
  show "(2 * x, x) \<in> measure (\<lambda>x. nat \<lceil>1 / x\<rceil>)"
    unfolding in_measure using less pos by (simp only: zless_nat_conj)
qed

declare doublings.simps [simp del]

text \<open>The binary exponent of a positive number \<open>x\<close>: the integer \<open>e\<close> with
  \<open>2 ^ e \<le> x < 2 ^ (e + 1)\<close>.\<close>

definition exponent :: "real \<Rightarrow> int" where
  "exponent x = (if x < 1 then - int (doublings x) else int (halvings x))"

text \<open>The integer nearest to \<open>y\<close>, the even one of the two when \<open>y\<close> lies half-way.\<close>

definition round_half_even :: "real \<Rightarrow> int" where
  "round_half_even y =
     (let f = \<lfloor>y\<rfloor>; d = y - of_int f
      in if d < 1 / 2 then f
         else if 1 / 2 < d then f + 1
         else if even f then f else f + 1)"

text \<open>The spacing of the doubles around a number with binary exponent \<open>e\<close>: 53 significant
  bits, and the fixed spacing of the subnormal numbers below \<open>2 ^ -1022\<close>.\<close>

definition ulp :: "int \<Rightarrow> real" where
  "ulp e = (let k = max e (- 1022) - 52 in if 0 \<le> k then 2 ^ nat k else 1 / 2 ^ nat (- k))"

text \<open>The nearest double to a real number, were the exponent range unbounded above.\<close>

definition fl :: "real \<Rightarrow> real" where
  "fl x = (if x = 0 then 0
           else let q = ulp (exponent \<bar>x\<bar>) in of_int (round_half_even (x / q)) * q)"

definition DBL_MAX :: real where
  "DBL_MAX = (2 ^ 53 - 1) * 2 ^ 971"

text \<open>The double an operation delivers for the exact finite result \<open>x\<close>: the nearest double,
  or an infinity on overflow.\<close>

definition rounded :: "real \<Rightarrow> double" where
  "rounded x =
     (let y = fl x
      in if DBL_MAX < \<bar>y\<bar> then (if 0 < x then PosInf else NegInf) else Finite y)"

fun dneg :: "double \<Rightarrow> double" where
  "dneg (Finite a) = Finite (- a)"
| "dneg PosInf = NegInf"
| "dneg NegInf = PosInf"
| "dneg NaN = NaN"

fun dadd :: "double \<Rightarrow> double \<Rightarrow> double" where
  "dadd (Finite a) (Finite b) = rounded (a + b)"
| "dadd NaN y = NaN"
| "dadd x NaN = NaN"
| "dadd PosInf NegInf = NaN"
| "dadd NegInf PosInf = NaN"
| "dadd PosInf y = PosInf"
| "dadd NegInf y = NegInf"
| "dadd x PosInf = PosInf"
| "dadd x NegInf = NegInf"

definition dsub :: "double \<Rightarrow> double \<Rightarrow> double" where
  "dsub x y = dadd x (dneg y)"

text \<open>The sign of a double that is not a NaN: -1, 0 or 1.\<close>

fun dsgn :: "double \<Rightarrow> int" where
  "dsgn (Finite a) = (if a < 0 then - 1 else if a = 0 then 0 else 1)"
| "dsgn PosInf = 1"
| "dsgn NegInf = - 1"
| "dsgn NaN = 0"

fun dmul :: "double \<Rightarrow> double \<Rightarrow> double" where
  "dmul (Finite a) (Finite b) = rounded (a * b)"
| "dmul NaN y = NaN"
| "dmul x NaN = NaN"
| "dmul x y =
     (if dsgn x = 0 \<or> dsgn y = 0 then NaN
      else if dsgn x = dsgn y then PosInf else NegInf)"

fun ddiv :: "double \<Rightarrow> double \<Rightarrow> double" where
  "ddiv (Finite a) (Finite b) =
     (if b \<noteq> 0 then rounded (a / b)
      else if a = 0 then NaN
      else if 0 < a then PosInf else NegInf)"
| "ddiv NaN y = NaN"
| "ddiv x NaN = NaN"
| "ddiv (Finite a) y = Finite 0"
| "ddiv x (Finite b) = (if dsgn x = (if b < 0 then - 1 else 1) then PosInf else NegInf)"
| "ddiv x y = NaN"

text \<open>The comparisons: every comparison with a NaN is false.\<close>

fun dless :: "double \<Rightarrow> double \<Rightarrow> bool" where
  "dless (Finite a) (Finite b) = (a < b)"
| "dless NaN y = False"
| "dless x NaN = False"
| "dless x NegInf = False"
| "dless PosInf y = False"
| "dless x y = True"

fun dle :: "double \<Rightarrow> double \<Rightarrow> bool" where
  "dle (Finite a) (Finite b) = (a \<le> b)"
| "dle NaN y = False"
| "dle x NaN = False"
| "dle NegInf y = True"
| "dle x PosInf = True"
| "dle x y = False"

text \<open>\<^verbatim>\<open>std::fabs\<close>, \<^verbatim>\<open>std::isnan\<close>, and \<^verbatim>\<open>std::fmin\<close> and \<^verbatim>\<open>std::fmax\<close>, which treat a
  NaN argument as missing and return the other argument.\<close>

fun dabs :: "double \<Rightarrow> double" where
  "dabs (Finite a) = Finite \<bar>a\<bar>"
| "dabs NaN = NaN"
| "dabs x = PosInf"

fun isnan :: "double \<Rightarrow> bool" where
  "isnan NaN = True"
| "isnan x = False"

fun dfmin :: "double \<Rightarrow> double \<Rightarrow> double" where
  "dfmin NaN y = y"
| "dfmin x NaN = x"
| "dfmin x y = (if dless y x then y else x)"

fun dfmax :: "double \<Rightarrow> double \<Rightarrow> double" where
  "dfmax NaN y = y"
| "dfmax x NaN = x"
| "dfmax x y = (if dless x y then y else x)"

text \<open>A decimal literal of the source: the nearest double.\<close>

definition lit :: "real \<Rightarrow> double" where
  "lit x = rounded x"


section \<open>The planning cycle (Planning::RunOnce and what it calls)\<close>

subsection \<open>Messages and state\<close>

record PathPoint =
  pp_x :: double
  pp_y :: double
  pp_z :: double
  pp_theta :: double
  pp_kappa :: double
  pp_s :: double
  pp_dkappa :: double
  pp_ddkappa :: double

record TrajectoryPoint =
  path_point :: PathPoint
  tp_v :: double
  tp_a :: double
  relative_time :: double

datatype ErrorCode = OK | PLANNING_ERROR | LOCALIZATION_ERROR

record Status =
  error_code :: ErrorCode
  error_message :: string

definition ok :: "Status \<Rightarrow> bool" where
  "ok status = (error_code status = OK)"

definition Status_OK :: Status where
  "Status_OK = \<lparr>error_code = OK, error_message = []\<rparr>"

datatype GearPosition =
    GEAR_NEUTRAL | GEAR_DRIVE | GEAR_REVERSE | GEAR_PARKING | GEAR_LOW | GEAR_INVALID | GEAR_NONE

text \<open>The fields of the output message \<^verbatim>\<open>ADCTrajectory\<close> that the cycle itself decides. The
  debug payload, the latency statistics, the lane ids, the right-of-way status and the engage
  advice are copied from the collaborators and read by no function below; they are left out.
  \<open>not_ready_reason\<close> is \<^verbatim>\<open>decision.main_decision.not_ready.reason\<close> (\<open>None\<close>: no reason
  set), \<open>estop\<close> is the pair \<^verbatim>\<open>(is_estop, reason)\<close>.\<close>

record ADCTrajectory =
  header_timestamp_sec :: double
  header_status :: "Status option"
  gear :: GearPosition
  routing_header :: "nat option"
  trajectory_point :: "TrajectoryPoint list"
  not_ready_reason :: "string option"
  estop :: "(bool \<times> string) option"
  is_replan :: bool

text \<open>A freshly constructed message.\<close>

definition ADCTrajectory_new :: ADCTrajectory where
  "ADCTrajectory_new =
     \<lparr>header_timestamp_sec = Finite 0, header_status = None, gear = GEAR_NEUTRAL,
      routing_header = None, trajectory_point = [], not_ready_reason = None,
      estop = None, is_replan = False\<rparr>"

record PublishableTrajectory =
  header_time :: double
  trajectory_points :: "TrajectoryPoint list"

record VehicleConfig =
  vc_x :: double
  vc_y :: double
  vc_theta :: double
  is_valid :: bool

text \<open>The pose of a localization message, with the presence bit of each optional field. The
  orientation quaternion is kept as what the math library (not among the sources) derives
  from it: the heading of \<^verbatim>\<open>QuaternionToHeading\<close> and the three angles of
  \<^verbatim>\<open>EulerAnglesZXYd\<close>.\<close>

record Pose =
  has_position :: bool
  position_x :: double
  position_y :: double
  position_z :: double
  has_orientation :: bool
  quaternion_heading :: double
  quaternion_roll :: double
  quaternion_pitch :: double
  quaternion_yaw :: double
  has_heading :: bool
  heading :: double
  has_angular_velocity_vrf :: bool
  angular_velocity_vrf_z :: double
  has_linear_acceleration_vrf :: bool
  linear_acceleration_vrf_y :: double
  has_angular_velocity :: bool
  angular_velocity_z :: double
  has_linear_acceleration :: bool
  linear_acceleration_y :: double
  has_euler_angles :: bool
  euler_angles_x :: double
  euler_angles_y :: double
  euler_angles_z :: double

record LocalizationEstimate =
  loc_has_timestamp_sec :: bool
  loc_timestamp_sec :: double
  has_pose :: bool
  pose :: Pose
  DebugString :: string

record Chassis =
  chassis_has_timestamp_sec :: bool
  chassis_timestamp_sec :: double
  has_speed_mps :: bool
  speed_mps :: double
  has_gear_location :: bool
  gear_location :: GearPosition
  driving_mode :: nat

record VehicleState =
  vs_x :: double
  vs_y :: double
  vs_z :: double
  vs_timestamp :: double
  vs_roll :: double
  vs_pitch :: double
  vs_yaw :: double
  vs_heading :: double
  vs_kappa :: double
  vs_linear_velocity :: double
  vs_angular_velocity :: double
  vs_linear_acceleration :: double
  vs_gear :: GearPosition
  vs_driving_mode :: nat
  vs_pose :: Pose

record Flags =
  FLAGS_use_navigation_mode :: bool
  FLAGS_use_planning_fallback :: bool
  FLAGS_planning_test_mode :: bool
  FLAGS_publish_estop :: bool
  FLAGS_estimate_current_vehicle_state :: bool
  FLAGS_enable_map_reference_unify :: bool
  FLAGS_navigation_fallback_cruise_time :: double

text \<open>What one tick reads from outside the controller: the flags, the clock, the adapters'
  snapshots and the results its collaborators return (the math library, the trajectory
  stitcher, the frame, the traffic decider and the planner are not among the sources).
  \<open>last_planning\<close> is the latest observed planning message (\<open>None\<close>: the adapter is null or
  empty). \<open>traffic_ok\<close> has one entry for each reference line info of the frame: whether
  the traffic decider succeeded on it and left it drivable. \<open>best_ref_info\<close> is the
  trajectory of the reference line info \<^verbatim>\<open>FindDriveReferenceLineInfo\<close> returns after the
  planner ran (\<open>None\<close>: a null pointer). \<open>quaternion_rotate\<close> is the first two components of
  \<^verbatim>\<open>quaternion.toRotationMatrix() * vec_distance + pos_vec\<close>.\<close>

record Env =
  env_flags :: Flags
  clock_start :: double
  clock_publish :: double
  localization_empty :: bool
  chassis_empty :: bool
  routing_adapter_null :: bool
  routing_empty :: bool
  routing_latest_header :: nat
  base_map_null :: bool
  localization :: LocalizationEstimate
  chassis :: Chassis
  libm_cos :: "double \<Rightarrow> double"
  libm_sin :: "double \<Rightarrow> double"
  quaternion_rotate ::
    "Pose \<Rightarrow> double \<times> double \<times> double \<Rightarrow> double \<times> double \<times> double \<Rightarrow> double \<times> double"
  transform_last_published ::
    "double \<Rightarrow> double \<Rightarrow> double \<Rightarrow> PublishableTrajectory option \<Rightarrow> PublishableTrajectory option"
  update_routing_ok :: bool
  is_new_routing :: bool
  last_planning :: "ADCTrajectory option"
  planning_seq_num :: "32 word"
  stitching_trajectory :: "TrajectoryPoint list"
  stitching_is_replan :: bool
  frame_init_status :: Status
  traffic_ok :: "bool list"
  status_to_string :: "Status \<Rightarrow> string"
  planner_status :: Status
  best_ref_info :: "TrajectoryPoint list option"

text \<open>The state kept between ticks: the controller's own members and the state of the
  vehicle state provider, a process-wide singleton.\<close>

record Planning =
  last_publishable_trajectory :: "PublishableTrajectory option"
  last_vehicle_config :: VehicleConfig
  last_routing :: "nat option"
  in_pull_over :: bool
  frame :: "32 word option"
  vehicle_state :: VehicleState
  original_localization :: LocalizationEstimate

text \<open>The calls a tick makes to its collaborators, in the order it makes them.\<close>

datatype event =
    Observe
  | NewReferenceLineProvider
  | TransformLastPublishedTrajectory
  | UpdateRoutingResponse
  | UpdateVehicleState VehicleState
  | ComputeStitchingTrajectory VehicleState
  | FrameInit "32 word" TrajectoryPoint VehicleState
  | TrafficDeciderExecute nat
  | SetDrivable nat bool
  | PlannerPlan TrajectoryPoint
  | FrameHistoryAdd "32 word"
  | Publish ADCTrajectory

subsection \<open>The vehicle state provider (modules/common/vehicle_state/vehicle_state_provider.cc)\<close>

text \<open>The tail of \<^verbatim>\<open>ConstructExceptLinearVelocity\<close>, after the angular velocity and the linear
  acceleration are set: the curvature and the three angles.\<close>

definition set_kappa_and_angles :: "Pose \<Rightarrow> VehicleState \<Rightarrow> VehicleState" where
  "set_kappa_and_angles p vs =
     (let vs1 = vs\<lparr>vs_kappa :=
                    (if \<not> dless (Finite 0) (vs_linear_velocity vs) then Finite 0
                     else ddiv (vs_angular_velocity vs) (vs_linear_velocity vs))\<rparr>
      in if has_euler_angles p
         then vs1\<lparr>vs_roll := euler_angles_x p, vs_pitch := euler_angles_y p,
                  vs_yaw := euler_angles_z p\<rparr>
         else vs1\<lparr>vs_roll := quaternion_roll p, vs_pitch := quaternion_pitch p,
                  vs_yaw := quaternion_yaw p\<rparr>)"

text \<open>\<^verbatim>\<open>ConstructExceptLinearVelocity\<close>: the return value and the vehicle state it leaves.
  A failed \<^verbatim>\<open>CHECK\<close> aborts the process: \<open>Inl CheckFailed\<close>.\<close>

datatype error = CheckFailed | OutOfRange

definition ConstructExceptLinearVelocity ::
  "Flags \<Rightarrow> LocalizationEstimate \<Rightarrow> VehicleState \<Rightarrow> error + (bool \<times> VehicleState)" where
  "ConstructExceptLinearVelocity flags loc vs =
     (if \<not> has_pose loc then Inr (False, vs)
      else if FLAGS_use_navigation_mode flags then Inr (True, vs)
      else
        let p = pose loc;
            vs1 = vs\<lparr>vs_pose := p\<rparr>;
            vs2 = (if has_position p
                   then vs1\<lparr>vs_x := position_x p, vs_y := position_y p, vs_z := position_z p\<rparr>
                   else vs1);
            vs3 = vs2\<lparr>vs_heading := (if has_heading p then heading p else quaternion_heading p)\<rparr>
        in if FLAGS_enable_map_reference_unify flags
           then
             if \<not> has_angular_velocity_vrf p then Inr (False, vs3)
             else
               let vs4 = vs3\<lparr>vs_angular_velocity := angular_velocity_vrf_z p\<rparr>
               in if \<not> has_linear_acceleration_vrf p then Inr (False, vs4)
                  else Inr (True, set_kappa_and_angles p
                                    (vs4\<lparr>vs_linear_acceleration := linear_acceleration_vrf_y p\<rparr>))
           else
             if \<not> has_angular_velocity p then Inl CheckFailed
             else if \<not> has_linear_acceleration p then Inl CheckFailed
             else Inr (True, set_kappa_and_angles p
                               (vs3\<lparr>vs_angular_velocity := angular_velocity_z p,
                                    vs_linear_acceleration := linear_acceleration_y p\<rparr>)))"

text \<open>\<^verbatim>\<open>VehicleStateProvider::Update\<close>: the status it returns and the state of the provider.\<close>

definition Update ::
  "Flags \<Rightarrow> LocalizationEstimate \<Rightarrow> Chassis \<Rightarrow> Planning \<Rightarrow> error + (Status \<times> Planning)" where
  "Update flags loc ch st =
     (let st1 = st\<lparr>original_localization := loc\<rparr>
      in case ConstructExceptLinearVelocity flags loc (vehicle_state st1) of
           Inl e \<Rightarrow> Inl e
         | Inr (False, vs) \<Rightarrow>
             Inr (\<lparr>error_code = LOCALIZATION_ERROR,
                   error_message =
                     ''Fail to update because ConstructExceptLinearVelocity error.''
                     @ ''localization:'' @ [CHR 0x0A] @ DebugString loc\<rparr>,
                  st1\<lparr>vehicle_state := vs\<rparr>)
         | Inr (True, vs) \<Rightarrow>
             let vs1 = (if loc_has_timestamp_sec loc then vs\<lparr>vs_timestamp := loc_timestamp_sec loc\<rparr>
                        else if chassis_has_timestamp_sec ch
                        then vs\<lparr>vs_timestamp := chassis_timestamp_sec ch\<rparr>
                        else vs);
                 vs2 = (if has_speed_mps ch then vs1\<lparr>vs_linear_velocity := speed_mps ch\<rparr> else vs1);
                 vs3 = vs2\<lparr>vs_gear := (if has_gear_location ch then gear_location ch else GEAR_NONE)\<rparr>;
                 vs4 = vs3\<lparr>vs_driving_mode := driving_mode ch\<rparr>
             in Inr (Status_OK, st1\<lparr>vehicle_state := vs4\<rparr>))"

text \<open>\<^verbatim>\<open>EstimateFuturePosition\<close>: the position \<open>(x, y)\<close> after the time \<open>t\<close>.\<close>

definition EstimateFuturePosition :: "Env \<Rightarrow> VehicleState \<Rightarrow> double \<Rightarrow> double \<times> double" where
  "EstimateFuturePosition env vs t1 =
     (let v = (if vs_gear vs = GEAR_REVERSE then dneg (vs_linear_velocity vs)
               else vs_linear_velocity vs);
          w = vs_angular_velocity vs;
          (d0, d1) =
            (if dless (dabs w) (lit 0.0001) then (Finite 0, dmul v t1)
             else (dmul (ddiv (dneg v) w) (dsub (Finite 1) (libm_cos env (dmul w t1))),
                   ddiv (dmul (libm_sin env (dmul w t1)) v) w))
      in if has_orientation (vs_pose vs)
         then quaternion_rotate env (vs_pose vs) (d0, d1, Finite 0) (vs_x vs, vs_y vs, vs_z vs)
         else (dadd d0 (vs_x vs), dadd d1 (vs_y vs)))"

subsection \<open>SetFallbackTrajectory and PublishPlanningPb\<close>

text \<open>The point the navigation-mode loop adds at the time \<open>t\<close>, for the velocity \<open>v\<close>.\<close>

definition cruise_point :: "double \<Rightarrow> double \<Rightarrow> TrajectoryPoint" where
  "cruise_point vel t1 =
     (let s1 = dmul t1 vel
      in \<lparr>path_point = \<lparr>pp_x = s1, pp_y = Finite 0, pp_z = Finite 0, pp_theta = Finite 0,
                         pp_kappa = Finite 0, pp_s = s1, pp_dkappa = Finite 0,
                         pp_ddkappa = Finite 0\<rparr>,
          tp_v = vel, tp_a = Finite 0, relative_time = t1\<rparr>)"

text \<open>The number of points a message can hold: the size of a repeated field is an
  \<^verbatim>\<open>int\<close>.\<close>

definition INT_MAX :: nat where
  "INT_MAX = 2 ^ 31 - 1"

text \<open>The loop \<^verbatim>\<open>for (double t = 0.0; t < FLAGS_navigation_fallback_cruise_time; t += 0.1)\<close>
  from the time \<open>t1\<close> on, appending to the points \<open>acc\<close>. The step is the double nearest to 0.1
  and every sum is rounded. The model follows the loop as long as the message can take
  another point; it says nothing about a run that fills the message.\<close>

function cruise_loop :: "double \<Rightarrow> double \<Rightarrow> double \<Rightarrow> TrajectoryPoint list \<Rightarrow> TrajectoryPoint list" where
  "cruise_loop cruise_time vel t1 acc =
     (if dless t1 cruise_time \<and> length acc < INT_MAX
      then cruise_loop cruise_time vel (dadd t1 (lit 0.1)) (acc @ [cruise_point vel t1])
      else acc)"
  by pat_completeness auto
termination
  by (relation "measure (\<lambda>(cruise_time, vel, t1, acc). INT_MAX - length acc)") auto

declare cruise_loop.simps [simp del]

text \<open>\<^verbatim>\<open>SetFallbackTrajectory\<close>. The velocity is the one the vehicle state provider holds.\<close>

definition SetFallbackTrajectory :: "Env \<Rightarrow> Planning \<Rightarrow> ADCTrajectory \<Rightarrow> ADCTrajectory" where
  "SetFallbackTrajectory env st trajectory_pb =
     (if FLAGS_use_navigation_mode (env_flags env)
      then trajectory_pb
             \<lparr>trajectory_point :=
                cruise_loop (FLAGS_navigation_fallback_cruise_time (env_flags env))
                  (vs_linear_velocity (vehicle_state st)) (Finite 0) (trajectory_point trajectory_pb)\<rparr>
      else (case last_planning env of
              None \<Rightarrow> trajectory_pb
            | Some traj \<Rightarrow>
                let current_time_stamp = header_timestamp_sec trajectory_pb;
                    pre_time_stamp = header_timestamp_sec traj
                in trajectory_pb
                     \<lparr>trajectory_point :=
                        trajectory_point trajectory_pb
                        @ map (\<lambda>p. p\<lparr>relative_time :=
                                         dsub (dadd (relative_time p) pre_time_stamp)
                                              current_time_stamp\<rparr>)
                              (trajectory_point traj)\<rparr>))"

text \<open>\<^verbatim>\<open>PublishPlanningPb\<close>: the message it hands to \<^verbatim>\<open>Publish\<close>.\<close>

definition PublishPlanningPb :: "Env \<Rightarrow> Planning \<Rightarrow> ADCTrajectory \<Rightarrow> double \<Rightarrow> ADCTrajectory" where
  "PublishPlanningPb env st trajectory_pb timestamp =
     (let pb1 = trajectory_pb\<lparr>header_timestamp_sec := timestamp, gear := GEAR_DRIVE\<rparr>;
          pb2 = (if \<not> routing_adapter_null env \<and> \<not> routing_empty env
                 then pb1\<lparr>routing_header := Some (routing_latest_header env)\<rparr>
                 else pb1);
          pb3 = (if FLAGS_use_planning_fallback (env_flags env) \<and> length (trajectory_point pb2) = 0
                 then SetFallbackTrajectory env st pb2
                 else pb2)
      in if \<not> FLAGS_planning_test_mode (env_flags env)
         then let dt = dsub timestamp (clock_publish env)
              in pb3\<lparr>trajectory_point :=
                       map (\<lambda>p. p\<lparr>relative_time := dadd (relative_time p) dt\<rparr>) (trajectory_point pb3)\<rparr>
         else pb3)"

subsection \<open>Plan\<close>

text \<open>Modelled from the spec: \<^verbatim>\<open>PublishableTrajectory\<close> is not among the sources. Its
  constructor keeps the header time and the points; \<^verbatim>\<open>PrependTrajectoryPoints\<close> puts the given
  points before them; \<^verbatim>\<open>Clear\<close> drops the points; \<^verbatim>\<open>PopulateTrajectoryProtobuf\<close> writes the
  header time and the points into the message.\<close>

definition PrependTrajectoryPoints ::
  "TrajectoryPoint list \<Rightarrow> PublishableTrajectory \<Rightarrow> PublishableTrajectory" where
  "PrependTrajectoryPoints pts traj = traj\<lparr>trajectory_points := pts @ trajectory_points traj\<rparr>"

definition Clear :: "PublishableTrajectory \<Rightarrow> PublishableTrajectory" where
  "Clear traj = traj\<lparr>trajectory_points := []\<rparr>"

definition PopulateTrajectoryProtobuf :: "PublishableTrajectory \<Rightarrow> ADCTrajectory \<Rightarrow> ADCTrajectory" where
  "PopulateTrajectoryProtobuf traj trajectory_pb =
     trajectory_pb\<lparr>header_timestamp_sec := header_time traj,
                   trajectory_point := trajectory_points traj\<rparr>"

text \<open>\<^verbatim>\<open>Planning::Plan\<close>: the new controller state, the message, the returned status and the
  calls made. \<^verbatim>\<open>stitching_trajectory.back()\<close> of an empty vector is \<open>Inl OutOfRange\<close>.\<close>

definition Plan ::
  "Env \<Rightarrow> Planning \<Rightarrow> double \<Rightarrow> TrajectoryPoint list \<Rightarrow> ADCTrajectory
     \<Rightarrow> error + (Planning \<times> ADCTrajectory \<times> Status \<times> event list)" where
  "Plan env st current_time_stamp stitching trajectory_pb =
     (if stitching = [] then Inl OutOfRange
      else
        let status = planner_status env;
            evs = [PlannerPlan (last stitching)]
        in (case best_ref_info env of
              None \<Rightarrow>
                Inr (st\<lparr>last_publishable_trajectory :=
                          map_option Clear (last_publishable_trajectory st)\<rparr>,
                     trajectory_pb,
                     \<lparr>error_code = PLANNING_ERROR,
                      error_message = ''planner failed to make a driving plan''\<rparr>,
                     evs)
            | Some best_trajectory \<Rightarrow>
                let traj = PrependTrajectoryPoints (butlast stitching)
                             \<lparr>header_time = current_time_stamp,
                              trajectory_points = best_trajectory\<rparr>
                in Inr (st\<lparr>last_publishable_trajectory := Some traj\<rparr>,
                        PopulateTrajectoryProtobuf traj trajectory_pb,
                        status,
                        evs)))"

subsection \<open>RunOnce\<close>

definition ComputeVehicleConfigFromLocalization :: "LocalizationEstimate \<Rightarrow> VehicleConfig" where
  "ComputeVehicleConfigFromLocalization loc =
     (if \<not> has_position (pose loc)
      then \<lparr>vc_x = Finite 0, vc_y = Finite 0, vc_theta = Finite 0, is_valid = False\<rparr>
      else \<lparr>vc_x = position_x (pose loc), vc_y = position_y (pose loc),
            vc_theta = (if has_heading (pose loc) then heading (pose loc)
                        else quaternion_heading (pose loc)),
            is_valid = True\<rparr>)"

definition IsVehicleStateValid :: "VehicleState \<Rightarrow> bool" where
  "IsVehicleStateValid vs =
     (if isnan (vs_x vs) \<or> isnan (vs_y vs) \<or> isnan (vs_z vs) \<or> isnan (vs_heading vs) \<or>
         isnan (vs_kappa vs) \<or> isnan (vs_linear_velocity vs) \<or> isnan (vs_linear_acceleration vs)
      then False else True)"

definition ResetPullOver :: "Env \<Rightarrow> Planning \<Rightarrow> Planning" where
  "ResetPullOver env st =
     (if last_routing st = None
      then st\<lparr>last_routing := Some (routing_latest_header env), in_pull_over := False\<rparr>
      else if \<not> in_pull_over st then st
      else if is_new_routing env
      then st\<lparr>in_pull_over := False, last_routing := Some (routing_latest_header env)\<rparr>
      else st)"

text \<open>The readiness gate at the head of \<^verbatim>\<open>RunOnce\<close>: the reason it sets, if any.\<close>

definition readiness_reason :: "Env \<Rightarrow> string option" where
  "readiness_reason env =
     (if localization_empty env then Some ''localization not ready''
      else if chassis_empty env then Some ''chassis not ready''
      else if \<not> FLAGS_use_navigation_mode (env_flags env) \<and> routing_empty env
      then Some ''routing not ready''
      else if base_map_null env then Some ''map not ready''
      else None)"

text \<open>The navigation-mode step that re-bases the last published trajectory into the
  current vehicle frame.\<close>

definition navigation_rebase :: "Env \<Rightarrow> Planning \<Rightarrow> Planning \<times> event list" where
  "navigation_rebase env st =
     (let vehicle_config = ComputeVehicleConfigFromLocalization (localization env);
          last_config = last_vehicle_config st
      in if is_valid last_config \<and> is_valid vehicle_config
         then
           let x_diff_map = dsub (vc_x vehicle_config) (vc_x last_config);
               y_diff_map = dsub (vc_y vehicle_config) (vc_y last_config);
               cos_map_veh = libm_cos env (vc_theta last_config);
               sin_map_veh = libm_sin env (vc_theta last_config);
               x_diff_veh = dadd (dmul cos_map_veh x_diff_map) (dmul sin_map_veh y_diff_map);
               y_diff_veh = dadd (dmul (dneg sin_map_veh) x_diff_map) (dmul cos_map_veh y_diff_map);
               theta_diff = dsub (vc_theta vehicle_config) (vc_theta last_config)
           in (st\<lparr>last_publishable_trajectory :=
                     transform_last_published env x_diff_veh y_diff_veh theta_diff
                       (last_publishable_trajectory st),
                   last_vehicle_config := vehicle_config\<rparr>,
               [TransformLastPublishedTrajectory])
         else (st\<lparr>last_vehicle_config := vehicle_config\<rparr>, []))"

text \<open>The vehicle state the rest of the cycle uses: the provider's, moved to the estimated
  position at the start of the cycle when the state is less than 20 ms old.\<close>

definition current_vehicle_state :: "Env \<Rightarrow> VehicleState \<Rightarrow> VehicleState" where
  "current_vehicle_state env vs =
     (let start_timestamp = clock_start env
      in if FLAGS_estimate_current_vehicle_state (env_flags env) \<and>
            dless (dsub start_timestamp (vs_timestamp vs)) (lit 0.020)
         then let future_xy = EstimateFuturePosition env vs (dsub start_timestamp (vs_timestamp vs))
              in vs\<lparr>vs_x := fst future_xy, vs_y := snd future_xy, vs_timestamp := start_timestamp\<rparr>
         else vs)"

text \<open>The loop over the reference line infos of the frame: the traffic decider runs on each,
  and one it fails on, or leaves not drivable, is marked not drivable.\<close>

definition traffic_decisions :: "bool list \<Rightarrow> event list" where
  "traffic_decisions oks =
     concat (map (\<lambda>k. if oks ! k then [TrafficDeciderExecute k]
                       else [TrafficDeciderExecute k, SetDrivable k False])
                 [0 ..< length oks])"

text \<open>\<^verbatim>\<open>RunOnce\<close>: the state after the tick and the calls it made, the published message
  among them. The sequence number of the frame is a \<^verbatim>\<open>uint32_t\<close>. \<^verbatim>\<open>InitFrame\<close> always
  creates the frame, so the branch for a null frame is never taken; \<^verbatim>\<open>DCHECK_GE\<close> is
  compiled out of release builds.\<close>

definition RunOnce :: "Env \<Rightarrow> Planning \<Rightarrow> error + (Planning \<times> event list)" where
  "RunOnce env st =
     (let flags = env_flags env;
          start_timestamp = clock_start env;
          not_ready_pb = ADCTrajectory_new
      in case readiness_reason env of
           Some reason \<Rightarrow>
             Inr (st, [Observe,
                       Publish (PublishPlanningPb env st (not_ready_pb\<lparr>not_ready_reason := Some reason\<rparr>)
                                  start_timestamp)])
         | None \<Rightarrow>
            (case Update flags (localization env) (chassis env) st of
               Inl e \<Rightarrow> Inl e
             | Inr (status, st1) \<Rightarrow>
                 let ev1 = [Observe] @ (if FLAGS_use_navigation_mode flags then [NewReferenceLineProvider] else []);
                     (st2, ev2) = (if FLAGS_use_navigation_mode flags then navigation_rebase env st1 else (st1, []));
                     vs = current_vehicle_state env (vehicle_state st2)
                 in if \<not> ok status \<or> \<not> IsVehicleStateValid vs
                    then Inr (st2, ev1 @ ev2 @
                           [Publish (PublishPlanningPb env st2
                              (not_ready_pb\<lparr>not_ready_reason := Some ''Update VehicleStateProvider failed'',
                                            header_status := Some status\<rparr>) start_timestamp)])
                    else if \<not> FLAGS_use_navigation_mode flags \<and> \<not> update_routing_ok env
                    then Inr (st2, ev1 @ ev2 @
                           [UpdateRoutingResponse,
                            Publish (PublishPlanningPb env st2
                              (not_ready_pb\<lparr>not_ready_reason :=
                                              Some ''Failed to update routing in reference line provider'',
                                            header_status := Some status\<rparr>) start_timestamp)])
                    else
                      let ev4 = (if \<not> FLAGS_use_navigation_mode flags
                                 then [UpdateRoutingResponse, UpdateVehicleState vs] else []);
                          st3 = (if \<not> FLAGS_use_navigation_mode flags then ResetPullOver env st2 else st2);
                          is_replan1 = stitching_is_replan env;
                          stitching = stitching_trajectory env;
                          frame_num = planning_seq_num env + 1
                      in if stitching = [] then Inl OutOfRange
                         else
                           let status2 = frame_init_status env;
                               st4 = st3\<lparr>frame := Some frame_num\<rparr>;
                               ev5 = ev1 @ ev2 @ ev4 @
                                     [ComputeStitchingTrajectory vs, FrameInit frame_num (last stitching) vs];
                               trajectory_pb = ADCTrajectory_new
                           in if \<not> ok status2
                              then
                                let pb = (if FLAGS_publish_estop flags
                                          then ADCTrajectory_new
                                                 \<lparr>estop := Some (True, error_message status2),
                                                  header_status := Some status2\<rparr>
                                          else trajectory_pb
                                                 \<lparr>not_ready_reason := Some (status_to_string env status2),
                                                  header_status := Some status2\<rparr>)
                                in Inr (st4\<lparr>frame := None\<rparr>,
                                        ev5 @ [Publish (PublishPlanningPb env st4 pb start_timestamp),
                                               FrameHistoryAdd frame_num])
                              else
                                (case Plan env st4 start_timestamp stitching trajectory_pb of
                                   Inl e \<Rightarrow> Inl e
                                 | Inr (st5, pb5, status3, ev6) \<Rightarrow>
                                     let pb6 = (if \<not> ok status3
                                                then (let pb' = pb5\<lparr>header_status := Some status3\<rparr>
                                                      in if FLAGS_publish_estop flags
                                                         then pb'\<lparr>estop := Some (True, error_message status3)\<rparr>
                                                         else pb')
                                                else pb5);
                                         pb7 = pb6\<lparr>is_replan := is_replan1\<rparr>
                                     in Inr (st5\<lparr>frame := None\<rparr>,
                                             ev5 @ traffic_decisions (traffic_ok env) @ ev6 @
                                             [Publish (PublishPlanningPb env st5 pb7 start_timestamp),
                                              FrameHistoryAdd frame_num]))))"


section \<open>Notions the statements about the planning cycle use\<close>

text \<open>What \<^verbatim>\<open>PublishPlanningPb\<close> does to a trajectory point at the end: outside the test mode
  it adds the offset, the cycle's timestamp minus the clock at publication, to the relative
  time.\<close>

definition publish_point :: "Env \<Rightarrow> double \<Rightarrow> TrajectoryPoint \<Rightarrow> TrajectoryPoint" where
  "publish_point env ts p =
     (if FLAGS_planning_test_mode (env_flags env) then p
      else p\<lparr>relative_time := dadd (relative_time p) (dsub ts (clock_publish env))\<rparr>)"




text \<open>The message \<^verbatim>\<open>PublishPlanningPb\<close> has after it set the header timestamp, the gear
  and the routing header, before the fallback and the time shift.\<close>

definition stamped :: "Env \<Rightarrow> ADCTrajectory \<Rightarrow> double \<Rightarrow> ADCTrajectory" where
  "stamped env pb ts =
     (if \<not> routing_adapter_null env \<and> \<not> routing_empty env
      then pb\<lparr>header_timestamp_sec := ts, gear := GEAR_DRIVE,
              routing_header := Some (routing_latest_header env)\<rparr>
      else pb\<lparr>header_timestamp_sec := ts, gear := GEAR_DRIVE\<rparr>)"

text \<open>The messages a tick published, in order.\<close>

definition emitted :: "event list \<Rightarrow> ADCTrajectory list" where
  "emitted evs = concat (map (\<lambda>e. case e of Publish pb \<Rightarrow> [pb] | _ \<Rightarrow> []) evs)"

subsection \<open>Concrete inputs\<close>

text \<open>A trajectory point on the x axis at the arc length \<open>s\<close>, with the relative time \<open>t\<close>.\<close>

definition point_example :: "real \<Rightarrow> real \<Rightarrow> TrajectoryPoint" where
  "point_example s1 t1 =
     \<lparr>path_point = \<lparr>pp_x = Finite s1, pp_y = Finite 0, pp_z = Finite 0, pp_theta = Finite 0,
                     pp_kappa = Finite 0, pp_s = Finite s1, pp_dkappa = Finite 0,
                     pp_ddkappa = Finite 0\<rparr>,
      tp_v = Finite 2, tp_a = Finite 0, relative_time = Finite t1\<rparr>"

definition pose_example :: Pose where
  "pose_example =
     \<lparr>has_position = True, position_x = Finite 3, position_y = Finite 4, position_z = Finite 0,
      has_orientation = False, quaternion_heading = Finite 0, quaternion_roll = Finite 0,
      quaternion_pitch = Finite 0, quaternion_yaw = Finite 0,
      has_heading = True, heading = Finite 0,
      has_angular_velocity_vrf = False, angular_velocity_vrf_z = Finite 0,
      has_linear_acceleration_vrf = False, linear_acceleration_vrf_y = Finite 0,
      has_angular_velocity = True, angular_velocity_z = Finite 0,
      has_linear_acceleration = True, linear_acceleration_y = Finite 0,
      has_euler_angles = True, euler_angles_x = Finite 0, euler_angles_y = Finite 0,
      euler_angles_z = Finite 0\<rparr>"

definition localization_example :: LocalizationEstimate where
  "localization_example =
     \<lparr>loc_has_timestamp_sec = True, loc_timestamp_sec = Finite 9.5, has_pose = True,
      pose = pose_example, DebugString = []\<rparr>"

definition chassis_example :: Chassis where
  "chassis_example =
     \<lparr>chassis_has_timestamp_sec = True, chassis_timestamp_sec = Finite 9.5,
      has_speed_mps = True, speed_mps = Finite 2,
      has_gear_location = True, gear_location = GEAR_DRIVE, driving_mode = 1\<rparr>"

definition vehicle_state_example :: VehicleState where
  "vehicle_state_example =
     \<lparr>vs_x = Finite 0, vs_y = Finite 0, vs_z = Finite 0, vs_timestamp = Finite 0,
      vs_roll = Finite 0, vs_pitch = Finite 0, vs_yaw = Finite 0, vs_heading = Finite 0,
      vs_kappa = Finite 0, vs_linear_velocity = Finite 2, vs_angular_velocity = Finite 0,
      vs_linear_acceleration = Finite 0, vs_gear = GEAR_DRIVE, vs_driving_mode = 1,
      vs_pose = pose_example\<rparr>"

text \<open>A tick in which every input is ready and every collaborator succeeds: the stitching
  prefix has two points and the selected candidate's trajectory begins at the second.\<close>

definition env_example :: Env where
  "env_example =
     \<lparr>env_flags = \<lparr>FLAGS_use_navigation_mode = False, FLAGS_use_planning_fallback = True,
                    FLAGS_planning_test_mode = False, FLAGS_publish_estop = False,
                    FLAGS_estimate_current_vehicle_state = False,
                    FLAGS_enable_map_reference_unify = False,
                    FLAGS_navigation_fallback_cruise_time = Finite 1\<rparr>,
      clock_start = Finite 10, clock_publish = Finite 10.25,
      localization_empty = False, chassis_empty = False,
      routing_adapter_null = False, routing_empty = False, routing_latest_header = 7,
      base_map_null = False,
      localization = localization_example, chassis = chassis_example,
      libm_cos = (\<lambda>x. Finite 1), libm_sin = (\<lambda>x. Finite 0),
      quaternion_rotate = (\<lambda>p d pos. (fst pos, fst (snd pos))),
      transform_last_published = (\<lambda>dx dy dtheta traj. traj),
      update_routing_ok = True, is_new_routing = False,
      last_planning = None, planning_seq_num = 41,
      stitching_trajectory = [point_example 0 0, point_example 1 0.5],
      stitching_is_replan = False,
      frame_init_status = Status_OK,
      traffic_ok = [True, False],
      status_to_string = error_message,
      planner_status = Status_OK,
      best_ref_info = Some [point_example 1 0.5, point_example 2 1]\<rparr>"

definition planning_example :: Planning where
  "planning_example =
     \<lparr>last_publishable_trajectory = None,
      last_vehicle_config = \<lparr>vc_x = Finite 0, vc_y = Finite 0, vc_theta = Finite 0, is_valid = False\<rparr>,
      last_routing = None, in_pull_over = False, frame = None,
      vehicle_state = vehicle_state_example,
      original_localization = localization_example\<rparr>"


section \<open>Double-precision numbers: evaluation\<close>


section \<open>The planning cycle: properties\<close>

subsection \<open>Publication\<close>









lemma SetFallbackTrajectory_reason:
  "not_ready_reason (SetFallbackTrajectory env st pb) = not_ready_reason pb"
  by (simp add: SetFallbackTrajectory_def split: option.splits)

lemma stamped_simps:
  "trajectory_point (stamped env pb ts) = trajectory_point pb"
  "header_timestamp_sec (stamped env pb ts) = ts"
  "not_ready_reason (stamped env pb ts) = not_ready_reason pb"
  by (simp_all add: stamped_def)

lemma publish_point_eq:
  "\<not> FLAGS_planning_test_mode (env_flags env) \<Longrightarrow>
   (\<lambda>p. p\<lparr>relative_time := dadd (relative_time p) (dsub ts (clock_publish env))\<rparr>) = publish_point env ts"
  by (simp add: publish_point_def fun_eq_iff)

lemma publish_point_test_mode:
  "FLAGS_planning_test_mode (env_flags env) \<Longrightarrow> map (publish_point env ts) ps = ps"
  by (induction ps) (simp_all add: publish_point_def)

lemma PublishPlanningPb_unfold:
  "PublishPlanningPb env st pb ts =
     (let pb3 = (if FLAGS_use_planning_fallback (env_flags env) \<and> trajectory_point pb = []
                 then SetFallbackTrajectory env st (stamped env pb ts) else stamped env pb ts)
      in pb3\<lparr>trajectory_point := map (publish_point env ts) (trajectory_point pb3)\<rparr>)"
proof (cases "FLAGS_planning_test_mode (env_flags env)")
  case True
  then show ?thesis
    by (simp add: PublishPlanningPb_def Let_def stamped_def publish_point_test_mode)
next
  case False
  then show ?thesis
    by (simp add: PublishPlanningPb_def Let_def stamped_def publish_point_eq)
qed

lemma PublishPlanningPb_reason:
  "not_ready_reason (PublishPlanningPb env st pb ts) = not_ready_reason pb"
  by (simp add: PublishPlanningPb_unfold Let_def SetFallbackTrajectory_reason stamped_simps)







subsection \<open>The fallback trajectory\<close>




subsection \<open>The readiness gate\<close>

text \<open>
  Claim C8. In a tick whose localization input is empty, the controller publishes one message,
  whose not-ready reason is exactly \<open>''localization not ready''\<close>, and does nothing else after
  taking the snapshot of its inputs: the calls of the tick are \<open>Observe\<close> and \<open>Publish\<close> (no
  vehicle-state update, no stitching, no frame, no entry in the frame history), and the
  state, the vehicle state provider's included, is the one it started with.
\<close>

theorem RunOnce_localization_not_ready:
  assumes "localization_empty env"
  shows "\<exists>pb. RunOnce env st = Inr (st, [Observe, Publish pb]) \<and>
              not_ready_reason pb = Some ''localization not ready''"
  using assms by (simp add: RunOnce_def readiness_reason_def Let_def PublishPlanningPb_reason)

theorem RunOnce_localization_not_ready_witness:
  "\<exists>pb. RunOnce (env_example\<lparr>localization_empty := True\<rparr>) planning_example
           = Inr (planning_example, [Observe, Publish pb]) \<and>
         not_ready_reason pb = Some ''localization not ready''"
  using RunOnce_localization_not_ready [of "env_example\<lparr>localization_empty := True\<rparr>" planning_example]
  by simp

subsection \<open>The seam between the stitching prefix and the new trajectory\<close>






lemma emitted_navigation_rebase: "emitted (snd (navigation_rebase env st)) = []"
  by (simp add: emitted_def navigation_rebase_def Let_def)

lemma PlannerPlan_not_traffic: "PlannerPlan p \<notin> set (traffic_decisions oks)"
  by (auto simp: traffic_decisions_def)







end
